theory Spec2Isabelle
  imports Main
begin

section \<open>Python strings\<close>

text \<open>
  A Python \<open>str\<close> is modelled as a \<open>string\<close>. The whitespace of \<open>str.strip()\<close> and of
  \<open>str.split()\<close> is the ASCII part of what \<open>str.isspace\<close> accepts: tab, line feed,
  vertical tab, form feed, carriage return, the four separators 0x1C..0x1F and the space.
\<close>

definition is_space :: "char \<Rightarrow> bool" where
  "is_space c = (c \<in> set [CHR 0x20, CHR 0x09, CHR 0x0A, CHR 0x0B, CHR 0x0C, CHR 0x0D,
                            CHR 0x1C, CHR 0x1D, CHR 0x1E, CHR 0x1F])"

text \<open>\<open>s.strip()\<close>\<close>

definition strip :: "string \<Rightarrow> string" where
  "strip s = rev (dropWhile is_space (rev (dropWhile is_space s)))"

text \<open>\<open>s.split(sep)\<close> for a one-character separator: never empty, \<open>"".split(",") == [""]\<close>.\<close>

fun split_on :: "char \<Rightarrow> string \<Rightarrow> string list" where
  "split_on sep [] = [[]]"
| "split_on sep (c # cs) =
     (if c = sep then [] # split_on sep cs
      else (case split_on sep cs of
              [] \<Rightarrow> [[c]]
            | w # ws \<Rightarrow> (c # w) # ws))"

text \<open>
  \<open>s.split()\<close>: runs of whitespace separate the words, leading and trailing whitespace
  gives no empty word. \<open>cur\<close> is the word being read.
\<close>

fun split_words :: "string \<Rightarrow> string \<Rightarrow> string list" where
  "split_words cur [] = (if cur = [] then [] else [cur])"
| "split_words cur (c # cs) =
     (if is_space c then (if cur = [] then split_words [] cs else cur # split_words [] cs)
      else split_words (cur @ [c]) cs)"

definition split :: "string \<Rightarrow> string list" where
  "split s = split_words [] s"

text \<open>\<open>' '.join(ws)\<close>\<close>

fun join :: "string list \<Rightarrow> string" where
  "join [] = []"
| "join [w] = w"
| "join (w # v # ws) = w @ CHR '' '' # join (v # ws)"

text \<open>\<open>str(n)\<close> for an integer, and the zero-padded fields of dates.\<close>

fun str_nat :: "nat \<Rightarrow> string" where
  "str_nat n = (if n < 10 then [''0123456789'' ! n]
                else str_nat (n div 10) @ [''0123456789'' ! (n mod 10)])"

declare str_nat.simps [simp del]

definition str_int :: "int \<Rightarrow> string" where
  "str_int i = (if i < 0 then CHR ''-'' # str_nat (nat (- i)) else str_nat (nat i))"

definition zfill :: "nat \<Rightarrow> string \<Rightarrow> string" where
  "zfill w s = replicate (w - length s) CHR ''0'' @ s"

section \<open>Dates\<close>

text \<open>
  A \<open>datetime\<close> value, without microseconds and time zone: the program only builds
  dates with \<open>strptime(_, "%Y-%m-%d")\<close>, whose time of day is midnight.
\<close>

datatype datetime =
  Datetime (year: nat) (month: nat) (day: nat) (hour: nat) (minute: nat) (second: nat)

definition is_leap :: "nat \<Rightarrow> bool" where
  "is_leap y = (y mod 4 = 0 \<and> (y mod 100 \<noteq> 0 \<or> y mod 400 = 0))"

definition days_in_month :: "nat \<Rightarrow> nat \<Rightarrow> nat" where
  "days_in_month y m =
     (if m = 2 then (if is_leap y then 29 else 28)
      else if m \<in> set [4, 6, 9, 11] then 30 else 31)"

definition digit_value :: "char \<Rightarrow> nat option" where
  "digit_value c = map_of (zip ''0123456789'' [0, 1, 2, 3, 4, 5, 6, 7, 8, 9]) c"

text \<open>
  \<open>datetime.strptime(s, "%Y-%m-%d")\<close>. The format compiles to the regular expression
  \<^verbatim>\<open>(?P<Y>\d\d\d\d)-(?P<m>1[0-2]|0[1-9]|[1-9])-(?P<d>3[0-1]|[1-2]\d|0[1-9]|[1-9]| [1-9])\<close>,
  matched at the start of the string by a backtracking matcher that tries the
  alternatives from left to right. The functions below list, in that order, the ways
  a month and a day can match a prefix, each with the rest of the string.
\<close>

definition month_alternatives :: "string \<Rightarrow> (nat \<times> string) list" where
  "month_alternatives s =
     (case s of
        a # b # rest \<Rightarrow>
          (if a = CHR ''1'' \<and> b \<in> set ''012'' then [(10 + the (digit_value b), rest)] else []) @
          (if a = CHR ''0'' \<and> b \<in> set ''123456789'' then [(the (digit_value b), rest)] else [])
      | _ \<Rightarrow> []) @
     (case s of
        a # rest \<Rightarrow> (if a \<in> set ''123456789'' then [(the (digit_value a), rest)] else [])
      | _ \<Rightarrow> [])"

definition day_alternatives :: "string \<Rightarrow> (nat \<times> string) list" where
  "day_alternatives s =
     (case s of
        a # b # rest \<Rightarrow>
          (if a = CHR ''3'' \<and> b \<in> set ''01'' then [(30 + the (digit_value b), rest)] else []) @
          (if a \<in> set ''12'' \<and> b \<in> set ''0123456789''
           then [(10 * the (digit_value a) + the (digit_value b), rest)] else []) @
          (if a = CHR ''0'' \<and> b \<in> set ''123456789'' then [(the (digit_value b), rest)] else [])
      | _ \<Rightarrow> []) @
     (case s of
        a # rest \<Rightarrow> (if a \<in> set ''123456789'' then [(the (digit_value a), rest)] else [])
      | _ \<Rightarrow> []) @
     (case s of
        a # b # rest \<Rightarrow>
          (if a = CHR '' '' \<and> b \<in> set ''123456789'' then [(the (digit_value b), rest)] else [])
      | _ \<Rightarrow> [])"

text \<open>
  The first complete match of the expression: year digits, a hyphen, a month
  alternative followed by a hyphen, a day alternative. The result is the year, month
  and day with the unmatched rest of the string.
\<close>

definition match_ymd :: "string \<Rightarrow> (nat \<times> nat \<times> nat \<times> string) option" where
  "match_ymd s =
     (case s of
        a # b # c # d # sep # s1 \<Rightarrow>
          (case (digit_value a, digit_value b, digit_value c, digit_value d) of
             (Some ya, Some yb, Some yc, Some yd) \<Rightarrow>
               (if sep = CHR ''-'' then
                  (case concat (map (\<lambda>(m, s2).
                           (case s2 of
                              sep2 # s3 \<Rightarrow>
                                (if sep2 = CHR ''-''
                                 then map (\<lambda>(dd, s4). (m, dd, s4)) (day_alternatives s3)
                                 else [])
                            | [] \<Rightarrow> []))
                         (month_alternatives s1)) of
                     [] \<Rightarrow> None
                   | (m, dd, s4) # _ \<Rightarrow> Some (1000 * ya + 100 * yb + 10 * yc + yd, m, dd, s4))
                else None)
           | _ \<Rightarrow> None)
      | _ \<Rightarrow> None)"

text \<open>
  \<open>strptime\<close> raises \<open>ValueError\<close> (here \<open>None\<close>) when the expression does not match,
  when unconverted data remains after the match, and when the year, month and day are
  not a date (year 0, or a day beyond the month's length).
\<close>

definition strptime :: "string \<Rightarrow> datetime option" where
  "strptime s =
     (case match_ymd s of
        None \<Rightarrow> None
      | Some (y, m, d, rest) \<Rightarrow>
          (if rest \<noteq> [] then None
           else if y < 1 \<or> days_in_month y m < d then None
           else Some (Datetime y m d 0 0 0)))"

text \<open>\<open>str(d)\<close> and \<open>d.strftime("%Y-%m-%d")\<close> of a date, the year written with four digits.\<close>

definition strftime :: "datetime \<Rightarrow> string" where
  "strftime d =
     zfill 4 (str_nat (year d)) @ ''-'' @ zfill 2 (str_nat (month d)) @ ''-'' @
     zfill 2 (str_nat (day d))"

definition str_datetime :: "datetime \<Rightarrow> string" where
  "str_datetime d =
     strftime d @ '' '' @ zfill 2 (str_nat (hour d)) @ '':'' @ zfill 2 (str_nat (minute d)) @
     '':'' @ zfill 2 (str_nat (second d))"

section \<open>Cell values and worksheets\<close>

text \<open>
  What a handler raises. \<open>HTTPException\<close> is a subclass of \<open>Exception\<close>; the detail of a
  re-raised exception is \<open>str(e)\<close> of the exception caught.
\<close>

datatype exn =
    HTTPException (status_code: nat) (detail: detail)
  | IndexError
  | FileNotFoundError
  | IllegalCharacterError
  and detail = Msg string | StrOf exn

text \<open>
  The value of a spreadsheet cell as the program meets it: empty (\<open>None\<close>), text, a
  whole number, a date, or a time of day (what a date of 30 or 31 December 1899 is
  loaded as). \<open>str_value\<close> is Python's \<open>str(value)\<close>, \<open>truthy\<close> its truth value. The
  program itself writes text and dates only; floating-point and Boolean cells are left
  out.
\<close>

datatype cell = CNone | CStr string | CInt int | CDate datetime | CTime nat nat nat

fun str_value :: "cell \<Rightarrow> string" where
  "str_value CNone = ''None''"
| "str_value (CStr s) = s"
| "str_value (CInt i) = str_int i"
| "str_value (CDate d) = str_datetime d"
| "str_value (CTime h m s) =
     zfill 2 (str_nat h) @ '':'' @ zfill 2 (str_nat m) @ '':'' @ zfill 2 (str_nat s)"

fun truthy :: "cell \<Rightarrow> bool" where
  "truthy CNone = False"
| "truthy (CStr s) = (s \<noteq> [])"
| "truthy (CInt i) = (i \<noteq> 0)"
| "truthy (CDate d) = True"
| "truthy (CTime h m s) = True"

fun format_cell_date :: "cell \<Rightarrow> string" where
  "format_cell_date (CDate d) = strftime d"
| "format_cell_date c = str_value c"

definition get_property_name :: "string \<Rightarrow> string" where
  "get_property_name property_code =
     (case map_of [(''NY198'', ''Comfort Inn & Suites''), (''NY345'', ''Quality Inn & Suites'')]
             property_code of
        Some name \<Rightarrow> name
      | None \<Rightarrow> ''Unknown Property'')"

text \<open>
  A worksheet is the list of its rows, row 1 (the header) first; a row is the list of
  its cells from column 1 to the last cell the row has. Rows and columns are numbered
  from 1, as the library numbers them.
\<close>

type_synonym row = "cell list"
type_synonym sheet = "row list"

definition max_column :: "sheet \<Rightarrow> nat" where
  "max_column sheet = foldr max (map length sheet) 1"

definition pad_row :: "nat \<Rightarrow> row \<Rightarrow> row" where
  "pad_row n r = r @ replicate (n - length r) CNone"

text \<open>
  \<open>sheet.iter_rows(min_row=2)\<close>: every row below the header as a tuple of
  \<open>max_column\<close> cells, the cells a row does not have being empty. The row at index \<open>i\<close>
  of the result is row \<open>i + 2\<close> of the sheet.
\<close>

definition iter_rows :: "sheet \<Rightarrow> row list" where
  "iter_rows sheet = map (pad_row (max_column sheet)) (drop 1 sheet)"

definition cell_value :: "sheet \<Rightarrow> nat \<Rightarrow> nat \<Rightarrow> cell" where
  "cell_value sheet r c =
     (if 1 \<le> r \<and> r \<le> length sheet \<and> 1 \<le> c \<and> c \<le> length (sheet ! (r - 1))
      then sheet ! (r - 1) ! (c - 1) else CNone)"

text \<open>
  What the library does with a value given to a cell (\<open>cell.value = v\<close>, and every value
  of \<open>sheet.append\<close>): a text is cut to its first 32767 characters, and the cut text is
  refused with \<open>IllegalCharacterError\<close> when it has a control character other than tab,
  line feed and carriage return (the codes 0 to 8, 11, 12 and 14 to 31). Other values
  are taken as they are.
\<close>

definition illegal_character :: "char \<Rightarrow> bool" where
  "illegal_character c =
     (c \<in> set [CHR 0x00, CHR 0x01, CHR 0x02, CHR 0x03, CHR 0x04, CHR 0x05, CHR 0x06, CHR 0x07,
                CHR 0x08, CHR 0x0B, CHR 0x0C, CHR 0x0E, CHR 0x0F, CHR 0x10, CHR 0x11, CHR 0x12,
                CHR 0x13, CHR 0x14, CHR 0x15, CHR 0x16, CHR 0x17, CHR 0x18, CHR 0x19, CHR 0x1A,
                CHR 0x1B, CHR 0x1C, CHR 0x1D, CHR 0x1E, CHR 0x1F])"

definition check_string :: "string \<Rightarrow> exn + string" where
  "check_string s =
     (let kept = take 32767 s
      in if list_ex illegal_character kept then Inl IllegalCharacterError else Inr kept)"

definition bind_value :: "cell \<Rightarrow> exn + cell" where
  "bind_value v =
     (case v of
        CStr s \<Rightarrow> (case check_string s of Inl e \<Rightarrow> Inl e | Inr kept \<Rightarrow> Inr (CStr kept))
      | _ \<Rightarrow> Inr v)"

text \<open>The cell at row \<open>r\<close> and column \<open>c\<close> holding \<open>v\<close>, the cell being made when it is missing.\<close>

definition put_value :: "sheet \<Rightarrow> nat \<Rightarrow> nat \<Rightarrow> cell \<Rightarrow> sheet" where
  "put_value sheet r c v =
     (let rows = sheet @ replicate (r - length sheet) []
      in rows[r - 1 := (pad_row c (rows ! (r - 1)))[c - 1 := v]])"

text \<open>Assignment to \<open>sheet.cell(row=r, column=c).value\<close>.\<close>

definition set_value :: "sheet \<Rightarrow> nat \<Rightarrow> nat \<Rightarrow> cell \<Rightarrow> exn + sheet" where
  "set_value sheet r c v =
     (case bind_value v of Inl e \<Rightarrow> Inl e | Inr bound \<Rightarrow> Inr (put_value sheet r c bound))"

text \<open>
  \<open>sheet.append(values)\<close> makes the cells of a new row below the last one, from left
  to right; the first value refused ends it.
\<close>

fun bind_values :: "row \<Rightarrow> exn + row" where
  "bind_values [] = Inr []"
| "bind_values (v # vs) =
     (case bind_value v of
        Inl e \<Rightarrow> Inl e
      | Inr bound \<Rightarrow> (case bind_values vs of Inl e \<Rightarrow> Inl e | Inr rest \<Rightarrow> Inr (bound # rest)))"

definition append_row :: "sheet \<Rightarrow> row \<Rightarrow> exn + sheet" where
  "append_row sheet values =
     (case bind_values values of Inl e \<Rightarrow> Inl e | Inr bound \<Rightarrow> Inr (sheet @ [bound]))"

text \<open>\<open>sheet.delete_rows(r)\<close> removes row \<open>r\<close>; the rows below move up by one.\<close>

definition delete_rows :: "sheet \<Rightarrow> nat \<Rightarrow> sheet" where
  "delete_rows sheet r = take (r - 1) sheet @ drop r sheet"

text \<open>The first cell of a row tuple, \<open>row[0].value\<close>: a tuple of \<open>iter_rows\<close> is never empty.\<close>

definition first_value :: "row \<Rightarrow> cell" where
  "first_value r = (case r of [] \<Rightarrow> CNone | c # _ \<Rightarrow> c)"

text \<open>
  The scan all four mutating handlers share:
  \<^verbatim>\<open>for row in sheet.iter_rows(min_row=2): if str(row[0].value) == room_number: ...; break\<close>.
  The result is the index of the first matching tuple.
\<close>

fun find_row :: "string \<Rightarrow> row list \<Rightarrow> nat option" where
  "find_row room_number [] = None"
| "find_row room_number (r # rs) =
     (if str_value (first_value r) = room_number then Some 0
      else map_option Suc (find_row room_number rs))"

section \<open>Saving and loading a workbook\<close>

text \<open>
  A worksheet that is saved and loaded again comes back cell by cell, with these
  changes. The text of a cell is written into the XML of the file as it is, and
  reading XML turns a carriage return, with the line feed after it if there is one,
  into one line feed. A date is written as the number of days since 30 December 1899,
  and a number from 0 up to 1 in a date cell is read as a time of day: the dates of 30
  and 31 December 1899 both come back as their time of day. The empty text is written
  as a cell without content and comes back as an empty cell. A cell that is empty in
  memory is not written at all: a row comes back without the empty cells at its end,
  and the sheet without the rows at its end that are left with no cell. (The styles
  of the cells are left out: a cell that is empty and has a style is written.)
\<close>

fun xml_newlines :: "string \<Rightarrow> string" where
  "xml_newlines [] = []"
| "xml_newlines [c] = [if c = CHR 0x0D then CHR 0x0A else c]"
| "xml_newlines (c # d # cs) =
     (if c = CHR 0x0D then
        (if d = CHR 0x0A then CHR 0x0A # xml_newlines cs else CHR 0x0A # xml_newlines (d # cs))
      else c # xml_newlines (d # cs))"

fun stored_cell :: "cell \<Rightarrow> cell" where
  "stored_cell (CStr s) = (if s = [] then CNone else CStr (xml_newlines s))"
| "stored_cell (CDate d) =
     (if year d = 1899 \<and> month d = 12 \<and> (day d = 30 \<or> day d = 31)
      then CTime (hour d) (minute d) (second d) else CDate d)"
| "stored_cell c = c"

definition stored_row :: "row \<Rightarrow> row" where
  "stored_row r = map stored_cell (rev (dropWhile (\<lambda>c. c = CNone) (rev r)))"

definition stored_sheet :: "sheet \<Rightarrow> sheet" where
  "stored_sheet sheet = rev (dropWhile (\<lambda>r. r = []) (rev (map stored_row sheet)))"

section \<open>The store files and the outcome of a request\<close>

text \<open>
  The disk: \<open>files\<close> maps the path of a workbook file to the worksheet a load of it
  returns, \<open>dirs\<close> is the set of the paths that name a directory, and \<open>writes\<close> logs
  every \<open>wb.save\<close> that wrote a file, in order. A file is known by its path as the
  program writes it; two spellings of one path are not identified.
\<close>

record disk =
  files :: "string \<rightharpoonup> sheet"
  dirs :: "string set"
  writes :: "(string \<times> sheet) list"

datatype response =
    Success string
  | WorkOrders "(string \<times> string) list list"
  | Report "(string \<times> string list \<times> string \<times> string) list"

record WorkOrder =
  property_code :: string
  room_numbers :: string
  work_orders :: string
  completion_date :: string

record RemoveWorkOrder =
  remove_property_code :: string
  remove_room_number :: string

definition store_path :: "string \<Rightarrow> string" where
  "store_path code = ''uploads/'' @ code @ ''_work_orders.xlsx''"

text \<open>The directory of a path: what stands before its last separator.\<close>

definition parent_dir :: "string \<Rightarrow> string" where
  "parent_dir file_path = rev (drop 1 (dropWhile (\<lambda>c. c \<noteq> CHR ''/'') (rev file_path)))"

text \<open>
  \<open>wb.save(file_path)\<close> writes over a file that exists and makes a new file in a
  directory that exists; without the directory it raises \<open>FileNotFoundError\<close>. (A
  property code with a path separator names a file below the upload directory, in a
  directory that the program never makes.)
\<close>

definition wb_save :: "string \<Rightarrow> sheet \<Rightarrow> disk \<Rightarrow> exn + disk" where
  "wb_save file_path sheet d =
     (if files d file_path = None \<and> parent_dir file_path \<notin> dirs d then Inl FileNotFoundError
      else Inr (d\<lparr>files := (files d)(file_path \<mapsto> stored_sheet sheet),
                   writes := writes d @ [(file_path, stored_sheet sheet)]\<rparr>))"

definition load_workbook :: "string \<Rightarrow> disk \<Rightarrow> exn + sheet" where
  "load_workbook file_path d =
     (case files d file_path of None \<Rightarrow> Inl FileNotFoundError | Some sheet \<Rightarrow> Inr sheet)"

definition header_row :: row where
  "header_row = [CStr ''Room Number'', CStr ''Work Order'', CStr ''Completion Date'',
                 CStr ''Status'', CStr ''Best Room'']"

definition ensure_excel_file :: "string \<Rightarrow> disk \<Rightarrow> exn + string \<times> disk" where
  "ensure_excel_file code d =
     (let file_path = store_path code
      in if files d file_path = None
         then (case append_row [] header_row of
                 Inl e \<Rightarrow> Inl e
               | Inr sheet \<Rightarrow>
                   (case wb_save file_path sheet d of
                      Inl e \<Rightarrow> Inl e
                    | Inr d1 \<Rightarrow> Inr (file_path, d1)))
         else Inr (file_path, d))"

text \<open>
  Every handler body runs inside \<^verbatim>\<open>try: ... except Exception as e: raise HTTPException(500, str(e))\<close>:
  whatever the body raises, an \<open>HTTPException\<close> of the body included, leaves the handler
  as a 500.
\<close>

definition except_Exception :: "(exn + response) \<times> disk \<Rightarrow> (exn + response) \<times> disk" where
  "except_Exception out =
     (case out of
        (Inl e, d) \<Rightarrow> (Inl (HTTPException 500 (StrOf e)), d)
      | (Inr v, d) \<Rightarrow> (Inr v, d))"

section \<open>Creating work orders\<close>

text \<open>
  The body of the loop over \<open>zip(room_numbers_list, work_orders_list)\<close>, on the worksheet
  in memory: a row found for the room gets the new text appended to the old one and the
  new date; otherwise a row of four cells is appended. \<open>existing_row[1]\<close> and
  \<open>existing_row[2]\<close> raise \<open>IndexError\<close> on a tuple that short.
\<close>

definition process_work_order :: "datetime \<Rightarrow> sheet \<Rightarrow> string \<times> string \<Rightarrow> exn + sheet" where
  "process_work_order date sheet pair =
     (case pair of (room_number, work_order_text) \<Rightarrow>
        (case find_row room_number (iter_rows sheet) of
           Some i \<Rightarrow>
             (let existing_row = iter_rows sheet ! i
              in if length existing_row \<le> 1 then Inl IndexError
                 else
                   (let current_work_order = str_value (existing_row ! 1);
                        new_work_order = current_work_order @ '' / '' @ work_order_text
                    in case set_value sheet (i + 2) 2 (CStr new_work_order) of
                         Inl e \<Rightarrow> Inl e
                       | Inr sheet1 \<Rightarrow>
                           (if length existing_row \<le> 2 then Inl IndexError
                            else set_value sheet1 (i + 2) 3 (CDate date))))
         | None \<Rightarrow>
             append_row sheet
               [CStr room_number, CStr work_order_text, CDate date, CStr ''Pending'']))"

fun process_work_orders :: "datetime \<Rightarrow> sheet \<Rightarrow> (string \<times> string) list \<Rightarrow> exn + sheet" where
  "process_work_orders date sheet [] = Inr sheet"
| "process_work_orders date sheet (pair # pairs) =
     (case process_work_order date sheet pair of
        Inl e \<Rightarrow> Inl e
      | Inr sheet' \<Rightarrow> process_work_orders date sheet' pairs)"

text \<open>The two lists of the request: split at the commas, each element stripped.\<close>

definition room_numbers_list :: "WorkOrder \<Rightarrow> string list" where
  "room_numbers_list work_order = map strip (split_on CHR '','' (room_numbers work_order))"

definition work_orders_list :: "WorkOrder \<Rightarrow> string list" where
  "work_orders_list work_order = map strip (split_on CHR '','' (work_orders work_order))"

definition create_work_order_body :: "WorkOrder \<Rightarrow> disk \<Rightarrow> (exn + response) \<times> disk" where
  "create_work_order_body work_order d =
     (if length (room_numbers_list work_order) \<noteq> length (work_orders_list work_order)
      then (Inl (HTTPException 400 (Msg ''Number of rooms and work orders must match'')), d)
      else
        (case strptime (completion_date work_order) of
           None \<Rightarrow> (Inl (HTTPException 400 (Msg ''Invalid date format. Use YYYY-MM-DD'')), d)
         | Some date \<Rightarrow>
             (case ensure_excel_file (property_code work_order) d of
                Inl e \<Rightarrow> (Inl e, d)
              | Inr (file_path, d1) \<Rightarrow>
                  (case load_workbook file_path d1 of
                     Inl e \<Rightarrow> (Inl e, d1)
                   | Inr sheet \<Rightarrow>
                       (case process_work_orders date sheet
                               (zip (room_numbers_list work_order)
                                    (work_orders_list work_order)) of
                          Inl e \<Rightarrow> (Inl e, d1)
                        | Inr sheet' \<Rightarrow>
                            (case wb_save file_path sheet' d1 of
                               Inl e \<Rightarrow> (Inl e, d1)
                             | Inr d2 \<Rightarrow>
                                 (Inr (Success ''Work orders saved successfully''), d2)))))))"

definition create_work_order :: "WorkOrder \<Rightarrow> disk \<Rightarrow> (exn + response) \<times> disk" where
  "create_work_order work_order d = except_Exception (create_work_order_body work_order d)"

section \<open>Removing a work order\<close>

definition remove_work_order_body :: "RemoveWorkOrder \<Rightarrow> disk \<Rightarrow> (exn + response) \<times> disk" where
  "remove_work_order_body remove_order d =
     (let file_path = store_path (remove_property_code remove_order)
      in case files d file_path of
           None \<Rightarrow> (Inl (HTTPException 404 (Msg ''No work orders found for this property'')), d)
         | Some sheet \<Rightarrow>
             (case find_row (remove_room_number remove_order) (iter_rows sheet) of
                Some i \<Rightarrow>
                  (let row_to_delete = i + 2
                   in case wb_save file_path (delete_rows sheet row_to_delete) d of
                        Inl e \<Rightarrow> (Inl e, d)
                      | Inr d1 \<Rightarrow>
                          (Inr (Success (''Work order for room '' @
                                         remove_room_number remove_order @
                                         '' removed successfully'')), d1))
              | None \<Rightarrow>
                  (Inl (HTTPException 404
                          (Msg (''No work order found for room '' @
                                remove_room_number remove_order))),
                   d)))"

definition remove_work_order :: "RemoveWorkOrder \<Rightarrow> disk \<Rightarrow> (exn + response) \<times> disk" where
  "remove_work_order remove_order d = except_Exception (remove_work_order_body remove_order d)"

section \<open>Listing the work orders\<close>

text \<open>
  One dictionary of the answer, as the list of its keys and values. A row is listed
  when \<open>all(cell.value is not None for cell in row[:4])\<close>; the slice of a shorter
  tuple is the whole tuple, and reading \<open>row[1]\<close> to \<open>row[3]\<close> of it raises \<open>IndexError\<close>.
\<close>

definition work_order_entry :: "row \<Rightarrow> (string \<times> string) list" where
  "work_order_entry r =
     [(''room_number'', str_value (r ! 0)),
      (''work_order'', str_value (r ! 1)),
      (''completion_date'', format_cell_date (r ! 2)),
      (''status'', str_value (r ! 3)),
      (''best_room'', if length r > 4 \<and> truthy (r ! 4) then str_value (r ! 4) else ''No'')]"

fun collect_work_orders ::
  "(string \<times> string) list list \<Rightarrow> row list \<Rightarrow> exn + (string \<times> string) list list" where
  "collect_work_orders orders [] = Inr orders"
| "collect_work_orders orders (r # rs) =
     (if list_all (\<lambda>c. c \<noteq> CNone) (take 4 r)
      then (if length r < 4 then Inl IndexError
            else collect_work_orders (orders @ [work_order_entry r]) rs)
      else collect_work_orders orders rs)"

definition get_work_orders_body :: "string \<Rightarrow> disk \<Rightarrow> (exn + response) \<times> disk" where
  "get_work_orders_body code d =
     (let file_path = store_path code
      in case files d file_path of
           None \<Rightarrow> (Inr (WorkOrders []), d)
         | Some sheet \<Rightarrow>
             (case collect_work_orders [] (iter_rows sheet) of
                Inl e \<Rightarrow> (Inl e, d)
              | Inr orders \<Rightarrow> (Inr (WorkOrders orders), d)))"

definition get_work_orders :: "string \<Rightarrow> disk \<Rightarrow> (exn + response) \<times> disk" where
  "get_work_orders code d = except_Exception (get_work_orders_body code d)"

section \<open>Editing a work order and updating a room's status\<close>

text \<open>
  The request body is a JSON object, here with text values only: \<open>data.get(k)\<close> is
  \<open>data k\<close>, \<open>None\<close> for a key that is missing. \<open>all([...])\<close> fails on a missing and on an
  empty value.
\<close>

definition present :: "string option \<Rightarrow> bool" where
  "present v = (case v of None \<Rightarrow> False | Some s \<Rightarrow> s \<noteq> [])"

definition edit_work_order_body :: "(string \<rightharpoonup> string) \<Rightarrow> disk \<Rightarrow> (exn + response) \<times> disk" where
  "edit_work_order_body data d =
     (case (data ''property_code'', data ''room_number'', data ''work_order'',
            data ''completion_date'') of
        (Some code, Some room, Some work_order, Some completion) \<Rightarrow>
          (if \<not> list_all present [Some code, Some room, Some work_order, Some completion]
           then (Inl (HTTPException 400 (Msg ''Missing required fields'')), d)
           else
             (case strptime completion of
                None \<Rightarrow> (Inl (HTTPException 400 (Msg ''Invalid date format. Use YYYY-MM-DD'')), d)
              | Some date \<Rightarrow>
                  (let file_path = store_path code
                   in case files d file_path of
                        None \<Rightarrow> (Inl (HTTPException 404 (Msg ''Property not found'')), d)
                      | Some sheet \<Rightarrow>
                          (case find_row room (iter_rows sheet) of
                             Some i \<Rightarrow>
                               (let r = iter_rows sheet ! i
                                in if length r \<le> 1 then (Inl IndexError, d)
                                   else
                                     (case set_value sheet (i + 2) 2 (CStr work_order) of
                                        Inl e \<Rightarrow> (Inl e, d)
                                      | Inr sheet1 \<Rightarrow>
                                          (if length r \<le> 2 then (Inl IndexError, d)
                                           else
                                             (case set_value sheet1 (i + 2) 3 (CDate date) of
                                                Inl e \<Rightarrow> (Inl e, d)
                                              | Inr sheet2 \<Rightarrow>
                                                  (case wb_save file_path sheet2 d of
                                                     Inl e \<Rightarrow> (Inl e, d)
                                                   | Inr d1 \<Rightarrow>
                                                       (Inr (Success
                                                          ''Work order updated successfully''),
                                                        d1))))))
                           | None \<Rightarrow> (Inl (HTTPException 404 (Msg ''Room not found'')), d)))))
      | _ \<Rightarrow> (Inl (HTTPException 400 (Msg ''Missing required fields'')), d))"

definition edit_work_order :: "(string \<rightharpoonup> string) \<Rightarrow> disk \<Rightarrow> (exn + response) \<times> disk" where
  "edit_work_order data d = except_Exception (edit_work_order_body data d)"

text \<open>
  \<open>data.get('best_room', 'No')\<close>. With a tuple of more than four cells the status
  handler assigns \<open>row[4].value\<close>, otherwise it calls
  \<open>sheet.cell(row=row[0].row, column=5, value=best_room)\<close>: both give the value to the
  cell in column 5 of the row.
\<close>

definition update_room_status_body :: "(string \<rightharpoonup> string) \<Rightarrow> disk \<Rightarrow> (exn + response) \<times> disk" where
  "update_room_status_body data d =
     (let best_room = (case data ''best_room'' of None \<Rightarrow> ''No'' | Some b \<Rightarrow> b)
      in case (data ''property_code'', data ''room_number'', data ''status'') of
           (Some code, Some room, Some status) \<Rightarrow>
             (if \<not> list_all present [Some code, Some room, Some status]
              then (Inl (HTTPException 400 (Msg ''Missing required fields'')), d)
              else
                (let file_path = store_path code
                 in case files d file_path of
                      None \<Rightarrow> (Inl (HTTPException 404 (Msg ''Property not found'')), d)
                    | Some sheet \<Rightarrow>
                        (case find_row room (iter_rows sheet) of
                           Some i \<Rightarrow>
                             (let r = iter_rows sheet ! i
                              in if length r \<le> 3 then (Inl IndexError, d)
                                 else
                                   (case set_value sheet (i + 2) 4 (CStr status) of
                                      Inl e \<Rightarrow> (Inl e, d)
                                    | Inr sheet1 \<Rightarrow>
                                        (case (if length r > 4
                                               then set_value sheet1 (i + 2) 5 (CStr best_room)
                                               else set_value sheet1 (i + 2) 5 (CStr best_room)) of
                                           Inl e \<Rightarrow> (Inl e, d)
                                         | Inr sheet2 \<Rightarrow>
                                             (case wb_save file_path sheet2 d of
                                                Inl e \<Rightarrow> (Inl e, d)
                                              | Inr d1 \<Rightarrow>
                                                  (Inr (Success
                                                     ''Room status updated successfully''),
                                                   d1)))))
                         | None \<Rightarrow> (Inl (HTTPException 404 (Msg ''Room not found'')), d))))
         | _ \<Rightarrow> (Inl (HTTPException 400 (Msg ''Missing required fields'')), d))"

definition update_room_status :: "(string \<rightharpoonup> string) \<Rightarrow> disk \<Rightarrow> (exn + response) \<times> disk" where
  "update_room_status data d = except_Exception (update_room_status_body data d)"

section \<open>The report\<close>

text \<open>
  The advance widths of Helvetica, in thousandths of the font size, for the printable
  ASCII characters (the font's metrics file). A character outside that range is not
  modelled and counts as 0 here.
\<close>

definition helvetica_width :: "char \<Rightarrow> nat" where
  "helvetica_width c =
     (if c \<in> set '' !,./:;I[]ft'' \<or> c = CHR 0x5C then 278
      else if c \<in> set ''ijl'' then 222
      else if c = CHR 0x27 then 191
      else if c = CHR 0x22 then 355
      else if c \<in> set ''#$0123456789?L_abdeghnopqu'' then 556
      else if c = CHR ''%'' then 889
      else if c \<in> set ''&ABEKPSVXY'' then 667
      else if c \<in> set ''()-r'' \<or> c = CHR 0x60 then 333
      else if c = CHR ''*'' then 389
      else if c \<in> set ''+<=>~'' then 584
      else if c = CHR ''@'' then 1015
      else if c \<in> set ''CDHNRUw'' then 722
      else if c \<in> set ''FTZ'' then 611
      else if c \<in> set ''GOQ'' then 778
      else if c \<in> set ''Jcksvxyz'' then 500
      else if c \<in> set ''Mm'' then 833
      else if c = CHR ''W'' then 944
      else if c = CHR ''^'' then 469
      else if c \<in> set ''{}'' then 334
      else if c = CHR ''|'' then 260
      else 0)"

text \<open>
  \<open>c.stringWidth(s, "Helvetica", 10) > 230\<close>. The library computes the width as the sum
  of the advance widths times 0.001 times 10; the sum is a whole number, and the
  comparison with 230 is the comparison of the sum with 23000.
\<close>

definition too_wide :: "string \<Rightarrow> bool" where
  "too_wide s = (23000 < sum_list (map helvetica_width s))"

text \<open>
  The loop over the words: \<open>current_line.append(word)\<close>, and when the joined line is
  too wide, \<open>pop\<close> the word, close the line and start the next one with the word.
  The result is \<open>(lines, current_line)\<close> after the last word.
\<close>

fun wrap_words :: "string list \<Rightarrow> string list \<Rightarrow> string list \<Rightarrow> string list \<times> string list" where
  "wrap_words lines current_line [] = (lines, current_line)"
| "wrap_words lines current_line (word # words) =
     (if too_wide (join (current_line @ [word]))
      then wrap_words (lines @ [join current_line]) [word] words
      else wrap_words lines (current_line @ [word]) words)"

definition wrap_text :: "string \<Rightarrow> string list" where
  "wrap_text work_order_text =
     (case wrap_words [] [] (split work_order_text) of
        (lines, current_line) \<Rightarrow>
          (if current_line \<noteq> [] then lines @ [join current_line] else lines))"

text \<open>
  What the report draws for the rows of the store, in order: the room, the wrapped
  lines of the work order, the date and the status. The page layout and the file
  written under the reports directory are left out.
\<close>

fun report_rows :: "row list \<Rightarrow> exn + (string \<times> string list \<times> string \<times> string) list" where
  "report_rows [] = Inr []"
| "report_rows (r # rs) =
     (if length r < 4 then Inl IndexError
      else (case report_rows rs of
              Inl e \<Rightarrow> Inl e
            | Inr drawn \<Rightarrow>
                Inr ((str_value (r ! 0), wrap_text (str_value (r ! 1)), format_cell_date (r ! 2),
                      str_value (r ! 3)) # drawn)))"

definition generate_report_body :: "string \<Rightarrow> disk \<Rightarrow> (exn + response) \<times> disk" where
  "generate_report_body code d =
     (let file_path = store_path code
      in case files d file_path of
           None \<Rightarrow> (Inl (HTTPException 404 (Msg ''No work orders found for this property'')), d)
         | Some sheet \<Rightarrow>
             (case report_rows (iter_rows sheet) of
                Inl e \<Rightarrow> (Inl e, d)
              | Inr drawn \<Rightarrow> (Inr (Report drawn), d)))"

definition generate_report :: "string \<Rightarrow> disk \<Rightarrow> (exn + response) \<times> disk" where
  "generate_report code d = except_Exception (generate_report_body code d)"

text \<open>A word, as \<open>split\<close> returns them: not empty and without whitespace.\<close>

definition is_word :: "string \<Rightarrow> bool" where
  "is_word w = (w \<noteq> [] \<and> list_all (\<lambda>c. \<not> is_space c) w)"

section \<open>Stores\<close>

text \<open>
  A store is a worksheet with the header the program writes, or an older header of
  the first four columns: its first row has at least four cells. A worksheet is as
  loaded when saving and loading returns it as it is: every row of it ends in a cell
  with a value, and no cell of it is changed by the file. The header and the rows
  that the program writes are of that kind once they were loaded, a row whose best
  room was set to the empty text apart.
\<close>

definition is_store :: "sheet \<Rightarrow> bool" where
  "is_store sheet = (case sheet of [] \<Rightarrow> False | header # _ \<Rightarrow> 4 \<le> length header)"

definition full_rows :: "sheet \<Rightarrow> bool" where
  "full_rows sheet = list_all (\<lambda>r. r \<noteq> [] \<and> last r \<noteq> CNone) sheet"


text \<open>The disk at the start of the program: the three directories and no store.\<close>

definition empty_disk :: disk where
  "empty_disk = \<lparr>files = Map.empty, dirs = {''uploads'', ''reports'', ''static''}, writes = []\<rparr>"

section \<open>The room records of a store\<close>

text \<open>
  The store as the specification reads it: below the header, one record per row with
  the five fields room number, work order, completion date, status and best room, a
  missing field being empty. A record is listed when its first four fields are not
  empty; its best-room flag is \<open>No\<close> when the field is empty (and when its value counts
  as false: the empty text or 0).
\<close>

definition room_records :: "sheet \<Rightarrow> row list" where
  "room_records sheet = map (\<lambda>r. take 5 (pad_row 5 r)) (drop 1 sheet)"

definition has_first_four :: "row \<Rightarrow> bool" where
  "has_first_four f = (f ! 0 \<noteq> CNone \<and> f ! 1 \<noteq> CNone \<and> f ! 2 \<noteq> CNone \<and> f ! 3 \<noteq> CNone)"

definition record_entry :: "row \<Rightarrow> (string \<times> string) list" where
  "record_entry f =
     [(''room_number'', str_value (f ! 0)),
      (''work_order'', str_value (f ! 1)),
      (''completion_date'', format_cell_date (f ! 2)),
      (''status'', str_value (f ! 3)),
      (''best_room'', if truthy (f ! 4) then str_value (f ! 4) else ''No'')]"

definition listing :: "sheet \<Rightarrow> (string \<times> string) list list" where
  "listing sheet = map record_entry (filter has_first_four (room_records sheet))"

section \<open>Example stores\<close>

text \<open>The store of property NY198 after one work order for room 101, and a disk holding it.\<close>

definition store_101 :: sheet where
  "store_101 =
     [header_row,
      [CStr ''101'', CStr ''Fix sink'', CDate (Datetime 2025 3 1 0 0 0), CStr ''Pending'']]"

definition disk_101 :: disk where
  "disk_101 = \<lparr>files = [store_path ''NY198'' \<mapsto> store_101], dirs = {''uploads'', ''reports'', ''static''}, writes = []\<rparr>"

text \<open>
  A store with three rows: room 101, room 102 (its number kept as a whole number, as a
  spreadsheet editor stores it, and marked as best room) and a row with a room number
  only.
\<close>

definition store_mixed :: sheet where
  "store_mixed =
     [header_row,
      [CStr ''101'', CStr ''Fix sink'', CDate (Datetime 2025 3 1 0 0 0), CStr ''Pending''],
      [CInt 102, CStr ''Replace bulb'', CDate (Datetime 2025 4 2 0 0 0), CStr ''Done'',
       CStr ''Yes''],
      [CStr ''103'']]"

definition disk_mixed :: disk where
  "disk_mixed = \<lparr>files = [store_path ''NY198'' \<mapsto> store_mixed], dirs = {''uploads'', ''reports'', ''static''}, writes = []\<rparr>"





text \<open>A workbook of two columns put in the place of a store: not a store.\<close>

definition sheet_narrow :: sheet where
  "sheet_narrow = [[CStr ''Room'', CStr ''Note''], [CStr ''101'', CStr ''Fix sink'']]"

definition disk_narrow :: disk where
  "disk_narrow = \<lparr>files = [store_path ''NY198'' \<mapsto> sheet_narrow], dirs = {''uploads'', ''reports'', ''static''}, writes = []\<rparr>"

section \<open>Facts about dates\<close>

lemmas strptime_defs = strptime_def match_ymd_def month_alternatives_def day_alternatives_def
  digit_value_def days_in_month_def is_leap_def

lemma strptime_examples:
  "strptime ''2025-03-01'' = Some (Datetime 2025 3 1 0 0 0)"
  "strptime ''2025-04-02'' = Some (Datetime 2025 4 2 0 0 0)"
  "strptime ''13-2025-01'' = None"
  "strptime ''2025-02-29'' = None"
  "strptime ''2024-02-29'' = Some (Datetime 2024 2 29 0 0 0)"
  "strptime ''2025-3-1'' = Some (Datetime 2025 3 1 0 0 0)"
  "strptime ''2025-03-011'' = None"
  by (simp_all add: strptime_defs)

section \<open>Facts about worksheets\<close>

lemma max_column_ge: "r \<in> set sheet \<Longrightarrow> length r \<le> max_column sheet"
  unfolding max_column_def by (induction sheet) auto

lemma max_column_pos: "1 \<le> max_column sheet"
  unfolding max_column_def by (induction sheet) auto

lemma max_column_Cons: "max_column (r # sheet) = max (length r) (max_column sheet)"
  by (simp add: max_column_def)

lemma max_column_append: "max_column (xs @ ys) = max (max_column xs) (max_column ys)"
proof (induction xs)
  case Nil
  have "1 \<le> max_column ys" by (rule max_column_pos)
  then show ?case by (simp add: max_column_def)
next
  case (Cons r xs)
  then show ?case by (simp add: max_column_Cons)
qed

lemma max_column_single: "max_column [r] = max (length r) 1"
  by (simp add: max_column_def)

lemma is_store_width: "is_store sheet \<Longrightarrow> 4 \<le> max_column sheet"
proof -
  assume "is_store sheet"
  then obtain h rest where s: "sheet = h # rest" and h: "4 \<le> length h"
    by (auto simp: is_store_def split: list.splits)
  have "length h \<le> max_column sheet" using s by (intro max_column_ge) simp
  with h show ?thesis by simp
qed

lemma length_pad_row: "length (pad_row n r) = max n (length r)"
  by (simp add: pad_row_def)

lemma nth_pad_row:
  "k < max n (length r) \<Longrightarrow> pad_row n r ! k = (if k < length r then r ! k else CNone)"
  by (auto simp: pad_row_def nth_append)


lemma nth_iter_rows:
  "i < length sheet - 1 \<Longrightarrow> iter_rows sheet ! i = pad_row (max_column sheet) (sheet ! Suc i)"
  by (simp add: iter_rows_def)


lemma iter_rows_nth_cell:
  assumes "i < length sheet - 1" and "k < max_column sheet"
  shows "iter_rows sheet ! i ! k = cell_value sheet (i + 2) (Suc k)"
  using assms by (auto simp: nth_iter_rows cell_value_def pad_row_def nth_append)


lemma find_row_None:
  "find_row room rs = None \<longleftrightarrow> (\<forall>r \<in> set rs. str_value (first_value r) \<noteq> room)"
  by (induction rs) auto

lemma find_row_first:
  "i < length rs \<Longrightarrow> str_value (first_value (rs ! i)) = room \<Longrightarrow>
   (\<forall>j<i. str_value (first_value (rs ! j)) \<noteq> room) \<Longrightarrow> find_row room rs = Some i"
proof (induction rs arbitrary: i)
  case Nil
  then show ?case by simp
next
  case (Cons r rs)
  show ?case
  proof (cases i)
    case 0
    with Cons.prems show ?thesis by simp
  next
    case (Suc k)
    with Cons.prems have "str_value (first_value r) \<noteq> room" by auto
    moreover have "find_row room rs = Some k"
      using Cons.prems Suc by (intro Cons.IH) auto
    ultimately show ?thesis using Suc by simp
  qed
qed


lemma put_value_eq:
  assumes "1 \<le> r" and "r \<le> length sheet"
  shows "put_value sheet r c v = sheet[r - 1 := (pad_row c (sheet ! (r - 1)))[c - 1 := v]]"
  using assms by (simp add: put_value_def Let_def)

lemma cell_value_row:
  "1 \<le> r \<Longrightarrow> r \<le> length sheet \<Longrightarrow>
   cell_value sheet r c = (if 1 \<le> c \<and> c \<le> length (sheet ! (r - 1)) then sheet ! (r - 1) ! (c - 1) else CNone)"
  by (simp add: cell_value_def)





lemma is_store_put_value:
  assumes "is_store sheet" and "2 \<le> r" and "r \<le> length sheet"
  shows "is_store (put_value sheet r c v)"
proof -
  obtain h rest where s: "sheet = h # rest" using assms(1) by (cases sheet) (auto simp: is_store_def)
  obtain k where k: "r - 1 = Suc k" using assms(2) by (cases "r - 1") auto
  show ?thesis using assms s k by (simp add: put_value_eq is_store_def)
qed


section \<open>Facts about cell values, saving and loading\<close>





lemma xml_newlines_Nil: "(xml_newlines s = []) = (s = [])"
  by (induction s rule: xml_newlines.induct) auto

lemma xml_newlines_no_return: "CHR 0x0D \<notin> set (xml_newlines s)"
  by (induction s rule: xml_newlines.induct) auto

lemma xml_newlines_same: "CHR 0x0D \<notin> set s \<Longrightarrow> xml_newlines s = s"
  by (induction s rule: xml_newlines.induct) auto

lemma xml_newlines_idem: "xml_newlines (xml_newlines s) = xml_newlines s"
  by (simp add: xml_newlines_same xml_newlines_no_return)

lemma stored_cell_idem: "stored_cell (stored_cell c) = stored_cell c"
  by (cases c) (auto simp: xml_newlines_idem xml_newlines_Nil)

lemma stored_cell_None: "stored_cell CNone = CNone"
  by simp

lemma stored_cell_text: "s \<noteq> [] \<Longrightarrow> stored_cell (CStr s) \<noteq> CNone"
  by simp

lemma stored_cell_date: "stored_cell (CDate d) \<noteq> CNone"
  by simp

lemma stored_row_full: "r \<noteq> [] \<Longrightarrow> last r \<noteq> CNone \<Longrightarrow> stored_row r = map stored_cell r"
proof -
  assume "r \<noteq> []" and "last r \<noteq> CNone"
  then have "dropWhile (\<lambda>c. c = CNone) (rev r) = rev r"
    by (simp add: dropWhile_eq_self_iff hd_rev)
  then show ?thesis by (simp add: stored_row_def)
qed

lemma stored_sheet_full:
  assumes "full_rows sheet"
  shows "stored_sheet sheet = map (map stored_cell) sheet"
proof -
  have rows: "map stored_row sheet = map (map stored_cell) sheet"
    using assms by (auto simp: full_rows_def list_all_iff stored_row_full)
  have "dropWhile (\<lambda>r. r = []) (rev (map (map stored_cell) sheet)) = rev (map (map stored_cell) sheet)"
  proof (cases "sheet = []")
    case True
    then show ?thesis by simp
  next
    case False
    then have "last sheet \<in> set sheet" by simp
    then have "last sheet \<noteq> []" using assms by (auto simp: full_rows_def list_all_iff)
    then show ?thesis using False by (simp add: dropWhile_eq_self_iff hd_rev last_map)
  qed
  then show ?thesis by (simp add: stored_sheet_def rows)
qed



lemma is_store_stored_sheet: "full_rows sheet \<Longrightarrow> is_store (stored_sheet sheet) = is_store sheet"
  by (cases sheet) (simp_all add: is_store_def stored_sheet_full)


lemma room_records_stored_sheet:
  "full_rows sheet \<Longrightarrow> room_records (stored_sheet sheet) = map (map stored_cell) (room_records sheet)"
  by (simp add: room_records_def stored_sheet_full drop_map pad_row_def take_map)



lemma full_rows_delete_rows: "full_rows sheet \<Longrightarrow> full_rows (delete_rows sheet r)"
  by (auto simp: full_rows_def delete_rows_def list_all_iff dest: in_set_takeD in_set_dropD)


lemma full_rows_append: "full_rows sheet \<Longrightarrow> r \<noteq> [] \<Longrightarrow> last r \<noteq> CNone \<Longrightarrow> full_rows (sheet @ [r])"
  by (simp add: full_rows_def)



lemma parent_dir_store_path:
  assumes "CHR ''/'' \<notin> set code"
  shows "parent_dir (store_path code) = ''uploads''"
proof -
  have "dropWhile (\<lambda>c. c \<noteq> CHR ''/'') (rev code @ ''/sdaolpu'') = ''/sdaolpu''"
    using assms by (subst dropWhile_append2) auto
  then show ?thesis by (simp add: parent_dir_def store_path_def)
qed

section \<open>Facts about the example stores\<close>

lemma files_disk_101: "files disk_101 (store_path ''NY198'') = Some store_101"
  by (simp add: disk_101_def)

lemma iter_rows_store_101:
  "iter_rows store_101 =
     [[CStr ''101'', CStr ''Fix sink'', CDate (Datetime 2025 3 1 0 0 0), CStr ''Pending'', CNone]]"
  by (simp add: iter_rows_def store_101_def header_row_def max_column_def pad_row_def)



section \<open>Client errors\<close>

lemma except_Exception_status:
  "fst (except_Exception out) = Inl e \<Longrightarrow> status_code e = 500"
  by (cases out; cases "fst out") (auto simp: except_Exception_def)

lemma handler_errors_are_500:
  "fst (create_work_order work_order d) = Inl e \<Longrightarrow> status_code e = 500"
  "fst (remove_work_order remove_order d) = Inl e \<Longrightarrow> status_code e = 500"
  "fst (edit_work_order data d) = Inl e \<Longrightarrow> status_code e = 500"
  "fst (update_room_status data d) = Inl e \<Longrightarrow> status_code e = 500"
  "fst (get_work_orders code d) = Inl e \<Longrightarrow> status_code e = 500"
  "fst (generate_report code d) = Inl e \<Longrightarrow> status_code e = 500"
  unfolding create_work_order_def remove_work_order_def edit_work_order_def
    update_room_status_def get_work_orders_def generate_report_def
  by (rule except_Exception_status, assumption)+

text \<open>
  C1. The mismatch of the two lists and a malformed date raise a 400, a missing store
  and a missing room raise a 404; each is raised inside the handler's \<open>try\<close> block,
  whose \<open>except Exception\<close> catches it and raises a 500 with the text of the caught
  exception as detail. Here the handlers are run on such requests: on an empty upload
  directory and on a store that holds room 101 only.
\<close>

theorem client_errors_leave_as_500:
  "create_work_order \<lparr>property_code = ''NY198'', room_numbers = ''101,102'',
       work_orders = ''Fix sink,Replace bulb,Paint wall'',
       completion_date = ''2025-03-01''\<rparr> empty_disk
     = (Inl (HTTPException 500 (StrOf (HTTPException 400
          (Msg ''Number of rooms and work orders must match'')))), empty_disk) \<and>
   create_work_order \<lparr>property_code = ''NY198'', room_numbers = ''101'',
       work_orders = ''Fix sink'', completion_date = ''13-2025-01''\<rparr> empty_disk
     = (Inl (HTTPException 500 (StrOf (HTTPException 400
          (Msg ''Invalid date format. Use YYYY-MM-DD'')))), empty_disk) \<and>
   remove_work_order \<lparr>remove_property_code = ''NY198'', remove_room_number = ''101''\<rparr>
       empty_disk
     = (Inl (HTTPException 500 (StrOf (HTTPException 404
          (Msg ''No work orders found for this property'')))), empty_disk) \<and>
   remove_work_order \<lparr>remove_property_code = ''NY198'', remove_room_number = ''102''\<rparr>
       disk_101
     = (Inl (HTTPException 500 (StrOf (HTTPException 404
          (Msg ''No work order found for room 102'')))), disk_101) \<and>
   edit_work_order [''property_code'' \<mapsto> ''NY198'', ''room_number'' \<mapsto> ''102'',
       ''work_order'' \<mapsto> ''Fix sink'', ''completion_date'' \<mapsto> ''2025-03-01''] disk_101
     = (Inl (HTTPException 500 (StrOf (HTTPException 404 (Msg ''Room not found'')))), disk_101) \<and>
   update_room_status [''property_code'' \<mapsto> ''NY345'', ''room_number'' \<mapsto> ''101'',
       ''status'' \<mapsto> ''Done''] disk_101
     = (Inl (HTTPException 500 (StrOf (HTTPException 404 (Msg ''Property not found'')))),
        disk_101) \<and>
   generate_report ''NY198'' empty_disk
     = (Inl (HTTPException 500 (StrOf (HTTPException 404
          (Msg ''No work orders found for this property'')))), empty_disk)"
proof -
  have nofile: "files disk_101 (store_path ''NY345'') = None"
    by (simp add: disk_101_def store_path_def)
  have c1: "create_work_order \<lparr>property_code = ''NY198'', room_numbers = ''101,102'',
       work_orders = ''Fix sink,Replace bulb,Paint wall'',
       completion_date = ''2025-03-01''\<rparr> empty_disk
     = (Inl (HTTPException 500 (StrOf (HTTPException 400
          (Msg ''Number of rooms and work orders must match'')))), empty_disk)"
    by (simp add: create_work_order_def create_work_order_body_def except_Exception_def
        room_numbers_list_def work_orders_list_def)
  have c2: "create_work_order \<lparr>property_code = ''NY198'', room_numbers = ''101'',
       work_orders = ''Fix sink'', completion_date = ''13-2025-01''\<rparr> empty_disk
     = (Inl (HTTPException 500 (StrOf (HTTPException 400
          (Msg ''Invalid date format. Use YYYY-MM-DD'')))), empty_disk)"
    by (simp add: create_work_order_def create_work_order_body_def except_Exception_def
        room_numbers_list_def work_orders_list_def strptime_examples)
  have r1: "remove_work_order \<lparr>remove_property_code = ''NY198'',
       remove_room_number = ''101''\<rparr> empty_disk
     = (Inl (HTTPException 500 (StrOf (HTTPException 404
          (Msg ''No work orders found for this property'')))), empty_disk)"
    by (simp add: remove_work_order_def remove_work_order_body_def except_Exception_def
        empty_disk_def)
  have r2: "remove_work_order \<lparr>remove_property_code = ''NY198'',
       remove_room_number = ''102''\<rparr> disk_101
     = (Inl (HTTPException 500 (StrOf (HTTPException 404
          (Msg ''No work order found for room 102'')))), disk_101)"
    by (simp add: remove_work_order_def remove_work_order_body_def except_Exception_def
        files_disk_101 iter_rows_store_101 first_value_def)
  have e1: "edit_work_order [''property_code'' \<mapsto> ''NY198'', ''room_number'' \<mapsto> ''102'',
       ''work_order'' \<mapsto> ''Fix sink'', ''completion_date'' \<mapsto> ''2025-03-01''] disk_101
     = (Inl (HTTPException 500 (StrOf (HTTPException 404 (Msg ''Room not found'')))), disk_101)"
    by (simp add: edit_work_order_def edit_work_order_body_def except_Exception_def present_def
        strptime_examples files_disk_101 iter_rows_store_101 first_value_def)
  have u1: "update_room_status [''property_code'' \<mapsto> ''NY345'', ''room_number'' \<mapsto> ''101'',
       ''status'' \<mapsto> ''Done''] disk_101
     = (Inl (HTTPException 500 (StrOf (HTTPException 404 (Msg ''Property not found'')))),
        disk_101)"
    by (simp add: update_room_status_def update_room_status_body_def except_Exception_def
        present_def nofile)
  have g1: "generate_report ''NY198'' empty_disk
     = (Inl (HTTPException 500 (StrOf (HTTPException 404
          (Msg ''No work orders found for this property'')))), empty_disk)"
    by (simp add: generate_report_def generate_report_body_def except_Exception_def
        empty_disk_def)
  from c1 c2 r1 r2 e1 u1 g1 show ?thesis by blast
qed

section \<open>Listing a store\<close>

declare add_2_eq_Suc [simp del] add_2_eq_Suc' [simp del]

lemma nth_record_fields:
  "k < 5 \<Longrightarrow> take 5 (pad_row 5 r) ! k = (if k < length r then r ! k else CNone)"
  by (simp add: nth_pad_row)

lemma take_4_nth: "4 \<le> length xs \<Longrightarrow> take 4 xs = [xs ! 0, xs ! 1, xs ! 2, xs ! 3]"
  by (auto simp: list_eq_iff_nth_eq less_Suc_eq numeral_eq_Suc)

lemma listed_pad_row:
  assumes "4 \<le> w" and "length r \<le> w"
  shows "list_all (\<lambda>c. c \<noteq> CNone) (take 4 (pad_row w r)) = has_first_four (take 5 (pad_row 5 r))"
proof -
  have "4 \<le> length (pad_row w r)" using assms by (simp add: length_pad_row)
  then have "take 4 (pad_row w r) = [pad_row w r ! 0, pad_row w r ! 1, pad_row w r ! 2, pad_row w r ! 3]"
    by (rule take_4_nth)
  then show ?thesis using assms
    by (simp add: has_first_four_def nth_record_fields nth_pad_row)
qed

lemma entry_pad_row:
  assumes "4 \<le> w" and "length r \<le> w"
  shows "work_order_entry (pad_row w r) = record_entry (take 5 (pad_row 5 r))"
proof -
  have best: "(length (pad_row w r) > 4 \<and> truthy (pad_row w r ! 4)) = truthy (take 5 (pad_row 5 r) ! 4)"
  proof (cases "4 < w")
    case True
    then show ?thesis using assms by (simp add: length_pad_row nth_record_fields nth_pad_row)
  next
    case False
    then have "length r \<le> 4" using assms by simp
    then show ?thesis using False assms
      by (simp add: length_pad_row nth_record_fields nth_pad_row)
  qed
  have nth4: "truthy (take 5 (pad_row 5 r) ! 4) \<Longrightarrow> pad_row w r ! 4 = take 5 (pad_row 5 r) ! 4"
    using assms by (auto simp: nth_record_fields nth_pad_row split: if_splits)
  show ?thesis
    unfolding work_order_entry_def record_entry_def using assms best nth4
    by (simp add: nth_record_fields nth_pad_row)
qed

lemma collect_work_orders_wide:
  "\<forall>r \<in> set rs. 4 \<le> length r \<Longrightarrow>
   collect_work_orders acc rs =
     Inr (acc @ map work_order_entry (filter (\<lambda>r. list_all (\<lambda>c. c \<noteq> CNone) (take 4 r)) rs))"
  by (induction rs arbitrary: acc) auto

lemma listing_rows:
  assumes "4 \<le> w" and "\<forall>r \<in> set rs. length r \<le> w"
  shows "map work_order_entry
           (filter (\<lambda>r. list_all (\<lambda>c. c \<noteq> CNone) (take 4 r)) (map (pad_row w) rs))
         = map record_entry (filter has_first_four (map (\<lambda>r. take 5 (pad_row 5 r)) rs))"
  using assms(2)
proof (induction rs)
  case Nil
  then show ?case by simp
next
  case (Cons r rs)
  then have r: "length r \<le> w" by simp
  show ?case using Cons assms(1)
    by (simp add: listed_pad_row [OF assms(1) r] entry_pad_row [OF assms(1) r])
qed

lemma collect_work_orders_store:
  assumes "is_store sheet"
  shows "collect_work_orders acc (iter_rows sheet) = Inr (acc @ listing sheet)"
proof -
  let ?w = "max_column sheet"
  have w: "4 \<le> ?w" using assms by (rule is_store_width)
  have len: "\<forall>r \<in> set (drop 1 sheet). length r \<le> ?w"
    by (auto dest: in_set_dropD intro: max_column_ge)
  have wide: "\<forall>r \<in> set (iter_rows sheet). 4 \<le> length r"
    using w by (auto simp: iter_rows_def length_pad_row)
  have "map work_order_entry (filter (\<lambda>r. list_all (\<lambda>c. c \<noteq> CNone) (take 4 r)) (iter_rows sheet))
        = listing sheet"
    unfolding iter_rows_def listing_def room_records_def using w len by (rule listing_rows)
  then show ?thesis using collect_work_orders_wide [OF wide] by simp
qed

lemma get_work_orders_missing:
  "files d (store_path code) = None \<Longrightarrow> get_work_orders code d = (Inr (WorkOrders []), d)"
  by (simp add: get_work_orders_def get_work_orders_body_def except_Exception_def)

lemma get_work_orders_store:
  "files d (store_path code) = Some sheet \<Longrightarrow> is_store sheet \<Longrightarrow>
   get_work_orders code d = (Inr (WorkOrders (listing sheet)), d)"
  by (simp add: get_work_orders_def get_work_orders_body_def except_Exception_def
      collect_work_orders_store)

lemma room_records_append:
  "sheet \<noteq> [] \<Longrightarrow> room_records (sheet @ [r]) = room_records sheet @ [take 5 (pad_row 5 r)]"
  by (cases sheet) (simp_all add: room_records_def)

lemma listing_append:
  "sheet \<noteq> [] \<Longrightarrow> listing (sheet @ [r]) =
     listing sheet @ (if has_first_four (take 5 (pad_row 5 r)) then [record_entry (take 5 (pad_row 5 r))] else [])"
  by (simp add: listing_def room_records_append)

lemma is_store_append: "is_store sheet \<Longrightarrow> is_store (sheet @ rs)"
  by (cases sheet) (auto simp: is_store_def)





section \<open>What the listing returns\<close>

lemma best_room_default:
  "\<not> truthy (f ! 4) \<Longrightarrow> map_of (record_entry f) ''best_room'' = Some ''No''"
  by (simp add: record_entry_def)

text \<open>
  C6. Without a store file the listing is empty, not an error, and the disk is left
  as it is. With a store, the listing is the entry of every room record whose first
  four fields are not empty, in the order of the rows; the best-room entry of a
  record without a fifth field is \<open>No\<close>.
\<close>

theorem list_returns_complete_records:
  "(files d (store_path code) = None \<longrightarrow> get_work_orders code d = (Inr (WorkOrders []), d)) \<and>
   (\<forall>sheet. files d (store_path code) = Some sheet \<and> is_store sheet \<longrightarrow>
      get_work_orders code d = (Inr (WorkOrders (listing sheet)), d) \<and>
      listing sheet = map record_entry (filter has_first_four (room_records sheet)) \<and>
      (\<forall>f \<in> set (room_records sheet). f ! 4 = CNone \<longrightarrow>
         map_of (record_entry f) ''best_room'' = Some ''No''))"
  by (auto simp: get_work_orders_missing get_work_orders_store listing_def best_room_default)

lemma files_disk_mixed: "files disk_mixed (store_path ''NY198'') = Some store_mixed"
  by (simp add: disk_mixed_def)

lemma is_store_store_mixed: "is_store store_mixed"
  by (simp add: is_store_def store_mixed_def header_row_def)

lemma listing_store_mixed:
  "listing store_mixed =
     [[(''room_number'', ''101''), (''work_order'', ''Fix sink''),
       (''completion_date'', ''2025-03-01''), (''status'', ''Pending''), (''best_room'', ''No'')],
      [(''room_number'', ''102''), (''work_order'', ''Replace bulb''),
       (''completion_date'', ''2025-04-02''), (''status'', ''Done''), (''best_room'', ''Yes'')]]"
  by (simp add: listing_def room_records_def store_mixed_def pad_row_def has_first_four_def
      record_entry_def strftime_def zfill_def str_nat.simps str_int_def)

theorem list_returns_complete_records_witness:
  "get_work_orders ''NY345'' disk_mixed = (Inr (WorkOrders []), disk_mixed) \<and>
   get_work_orders ''NY198'' disk_mixed =
     (Inr (WorkOrders
        [[(''room_number'', ''101''), (''work_order'', ''Fix sink''),
          (''completion_date'', ''2025-03-01''), (''status'', ''Pending''),
          (''best_room'', ''No'')],
         [(''room_number'', ''102''), (''work_order'', ''Replace bulb''),
          (''completion_date'', ''2025-04-02''), (''status'', ''Done''),
          (''best_room'', ''Yes'')]]), disk_mixed)"
proof -
  have none: "files disk_mixed (store_path ''NY345'') = None"
    by (simp add: disk_mixed_def store_path_def)
  show ?thesis
    using list_returns_complete_records [of disk_mixed "''NY345''"]
      list_returns_complete_records [of disk_mixed "''NY198''"]
      none files_disk_mixed is_store_store_mixed
    by (simp add: listing_store_mixed)
qed



section \<open>Removing a room\<close>






lemma length_room_records: "length (room_records sheet) = length sheet - 1"
  by (simp add: room_records_def)













section \<open>Editing a work order and updating a status\<close>






















section \<open>Wrapping the work order\<close>

lemma is_space_blank: "is_space CHR '' ''"
  by (simp add: is_space_def)

lemma split_words_append:
  "list_all (\<lambda>c. \<not> is_space c) w \<Longrightarrow> split_words cur (w @ rest) = split_words (cur @ w) rest"
  by (induction w arbitrary: cur) simp_all

lemma split_words_are_words:
  "list_all (\<lambda>c. \<not> is_space c) cur \<Longrightarrow> list_all is_word (split_words cur s)"
  by (induction s arbitrary: cur) (auto simp: is_word_def)

lemma split_are_words: "list_all is_word (split s)"
  by (simp add: split_def split_words_are_words)

lemma split_join_then:
  "list_all is_word g \<Longrightarrow>
   split_words [] (join g @ CHR '' '' # rest) = g @ split_words [] rest"
proof (induction g rule: join.induct)
  case 1
  show ?case by (simp add: is_space_blank)
next
  case (2 w)
  then show ?case by (simp add: is_word_def split_words_append is_space_blank)
next
  case (3 w v ws)
  then have w: "list_all (\<lambda>c. \<not> is_space c) w" "w \<noteq> []" by (simp_all add: is_word_def)
  have "split_words [] (join (w # v # ws) @ CHR '' '' # rest)
        = split_words [] (w @ CHR '' '' # (join (v # ws) @ CHR '' '' # rest))" by simp
  also have "\<dots> = w # split_words [] (join (v # ws) @ CHR '' '' # rest)"
    using w by (simp add: split_words_append is_space_blank)
  finally show ?case using 3 by simp
qed

lemma split_join:
  "list_all is_word g \<Longrightarrow> split_words [] (join g) = g"
proof (induction g rule: join.induct)
  case 1
  show ?case by simp
next
  case (2 w)
  then have "list_all (\<lambda>c. \<not> is_space c) w" "w \<noteq> []" by (simp_all add: is_word_def)
  then show ?case using split_words_append [of w "[]" "[]"] by simp
next
  case (3 w v ws)
  then have w: "list_all (\<lambda>c. \<not> is_space c) w" "w \<noteq> []" by (simp_all add: is_word_def)
  have "split_words [] (join (w # v # ws)) = w # split_words [] (join (v # ws))"
    using w by (simp add: split_words_append is_space_blank)
  then show ?case using 3 by simp
qed

lemma split_join_lines:
  "list_all (list_all is_word) gs \<Longrightarrow> split_words [] (join (map join gs)) = concat gs"
proof (induction gs)
  case Nil
  show ?case by simp
next
  case (Cons g gs)
  show ?case
  proof (cases gs)
    case Nil
    then show ?thesis using Cons.prems by (simp add: split_join)
  next
    case (Cons h hs)
    then have "join (map join (g # gs)) = join g @ CHR '' '' # join (map join gs)" by simp
    then show ?thesis using Cons.prems Cons.IH by (simp add: split_join_then)
  qed
qed

lemma wrap_words_groups:
  "wrap_words lines cur ws = (lines', cur') \<Longrightarrow>
   \<exists>gs. lines' = lines @ map join gs \<and> concat gs @ cur' = cur @ ws"
proof (induction ws arbitrary: lines cur)
  case Nil
  then show ?case by (intro exI [of _ "[]"]) simp
next
  case (Cons w ws)
  show ?case
  proof (cases "too_wide (join (cur @ [w]))")
    case True
    with Cons.prems have "wrap_words (lines @ [join cur]) [w] ws = (lines', cur')" by simp
    from Cons.IH [OF this] obtain gs where
      "lines' = (lines @ [join cur]) @ map join gs" "concat gs @ cur' = [w] @ ws" by blast
    then show ?thesis by (intro exI [of _ "cur # gs"]) simp
  next
    case False
    with Cons.prems have "wrap_words lines (cur @ [w]) ws = (lines', cur')" by simp
    from Cons.IH [OF this] show ?thesis by simp
  qed
qed

lemma wrap_words_count:
  "wrap_words lines cur ws = (lines', cur') \<Longrightarrow>
   length lines \<le> length lines' \<and>
   (length lines' = length lines \<longrightarrow>
      cur' = cur @ ws \<and> (ws \<noteq> [] \<longrightarrow> \<not> too_wide (join (cur @ ws)))) \<and>
   (cur \<noteq> [] \<or> ws \<noteq> [] \<longrightarrow> cur' \<noteq> [])"
proof (induction ws arbitrary: lines cur)
  case Nil
  then show ?case by simp
next
  case (Cons w ws)
  show ?case
  proof (cases "too_wide (join (cur @ [w]))")
    case True
    with Cons.prems have "wrap_words (lines @ [join cur]) [w] ws = (lines', cur')" by simp
    from Cons.IH [OF this] show ?thesis by simp
  next
    case False
    with Cons.prems have "wrap_words lines (cur @ [w]) ws = (lines', cur')" by simp
    from Cons.IH [OF this] False show ?thesis by (cases ws) simp_all
  qed
qed

lemma not_too_wide_Nil: "\<not> too_wide []"
  by (simp add: too_wide_def)

lemma wrap_words_fit:
  "wrap_words lines cur ws = (lines', cur') \<Longrightarrow>
   list_all (\<lambda>w. \<not> too_wide w) ws \<Longrightarrow> \<not> too_wide (join cur) \<Longrightarrow>
   list_all (\<lambda>l. \<not> too_wide l) lines \<Longrightarrow>
   list_all (\<lambda>l. \<not> too_wide l) lines' \<and> \<not> too_wide (join cur')"
proof (induction ws arbitrary: lines cur)
  case Nil
  then show ?case by simp
next
  case (Cons w ws)
  show ?case
  proof (cases "too_wide (join (cur @ [w]))")
    case True
    with Cons.prems have "wrap_words (lines @ [join cur]) [w] ws = (lines', cur')" by simp
    from Cons.IH [OF this] Cons.prems show ?thesis by simp
  next
    case False
    with Cons.prems have "wrap_words lines (cur @ [w]) ws = (lines', cur')" by simp
    from Cons.IH [OF this] Cons.prems False show ?thesis by simp
  qed
qed

text \<open>
  C3, as amended. With the widths the renderer measures (Helvetica at size 10, budget
  230): when the words of the text, joined by single spaces, are wider than the
  budget, at least two lines are produced; when every word of the text fits the
  budget, every line fits the budget; and the lines, joined by spaces, split into the
  words of the text, in order.
\<close>

theorem wrapped_lines_fit_when_words_fit:
  "(too_wide (join (split work_order_text)) \<longrightarrow> 2 \<le> length (wrap_text work_order_text)) \<and>
   (list_all (\<lambda>w. \<not> too_wide w) (split work_order_text) \<longrightarrow>
      list_all (\<lambda>l. \<not> too_wide l) (wrap_text work_order_text)) \<and>
   split (join (wrap_text work_order_text)) = split work_order_text"
proof -
  let ?ws = "split work_order_text"
  obtain lines cur where run: "wrap_words [] [] ?ws = (lines, cur)"
    by (cases "wrap_words [] [] ?ws") auto
  have out: "wrap_text work_order_text = (if cur \<noteq> [] then lines @ [join cur] else lines)"
    by (simp add: wrap_text_def run)
  note count = wrap_words_count [OF run]
  have two: "2 \<le> length (wrap_text work_order_text)" if wide: "too_wide (join ?ws)"
  proof -
    have ne: "?ws \<noteq> []" using wide not_too_wide_Nil by auto
    then have cur: "cur \<noteq> []" using count by simp
    have "length lines \<noteq> 0"
    proof
      assume "length lines = 0"
      then have "\<not> too_wide (join ?ws)" using count ne by simp
      then show False using wide by simp
    qed
    then show ?thesis using cur by (cases lines) (simp_all add: out)
  qed
  have fit: "list_all (\<lambda>l. \<not> too_wide l) (wrap_text work_order_text)"
    if words: "list_all (\<lambda>w. \<not> too_wide w) ?ws"
    using wrap_words_fit [OF run words] not_too_wide_Nil by (simp add: out)
  from wrap_words_groups [OF run] obtain gs where
    gs: "lines = map join gs" "concat gs @ cur = ?ws" by auto
  define G where "G = (if cur \<noteq> [] then gs @ [cur] else gs)"
  have G: "wrap_text work_order_text = map join G" "concat G = ?ws"
    using gs by (auto simp: out G_def)
  have "list_all is_word (concat G)" using G(2) split_are_words by simp
  then have "list_all (list_all is_word) G" by (induction G) simp_all
  then have "split (join (wrap_text work_order_text)) = concat G"
    by (simp add: split_def G(1) split_join_lines)
  then have same: "split (join (wrap_text work_order_text)) = ?ws" by (simp add: G(2))
  show ?thesis using two fit same by blast
qed


lemma width_of_m: "helvetica_width CHR ''m'' = 833"
  by (simp add: helvetica_width_def)

lemma too_wide_long_word: "too_wide (replicate 42 CHR ''m'')"
  by (simp add: too_wide_def width_of_m sum_list_replicate)

lemma split_single_word:
  assumes "list_all (\<lambda>c. \<not> is_space c) w" and "w \<noteq> []"
  shows "split w = [w]"
  using assms split_words_append [of w "[]" "[]"] by (simp add: split_def)

lemma split_words_blanks:
  "split_words cur (replicate n CHR '' '') = (if cur = [] then [] else [cur])"
  by (induction n arbitrary: cur) (simp_all add: is_space_blank)

text \<open>
  C3 as stated fails on a word wider than the budget: for the text of 42 letters m
  (349.86 units) the loop closes an empty first line and the second line is the word,
  over the budget. And when the width of the text is taken as it stands, it fails on
  the letter a followed by 100 spaces (283.56 units), which gives the one line \<open>a\<close>.
\<close>

theorem long_word_gives_line_over_budget:
  "too_wide (replicate 42 CHR ''m'') \<and>
   wrap_text (replicate 42 CHR ''m'') = [[], replicate 42 CHR ''m''] \<and>
   too_wide (wrap_text (replicate 42 CHR ''m'') ! 1) \<and>
   too_wide (''a'' @ replicate 100 CHR '' '') \<and>
   wrap_text (''a'' @ replicate 100 CHR '' '') = [''a'']"
proof -
  have "list_all (\<lambda>c. \<not> is_space c) (replicate 42 CHR ''m'')"
    by (simp add: list_all_iff is_space_def)
  moreover have "replicate 42 CHR ''m'' \<noteq> []" by simp
  ultimately have "split (replicate 42 CHR ''m'') = [replicate 42 CHR ''m'']"
    by (rule split_single_word)
  then have long: "wrap_text (replicate 42 CHR ''m'') = [[], replicate 42 CHR ''m'']"
    using too_wide_long_word by (simp add: wrap_text_def)
  have wide: "too_wide (''a'' @ replicate 100 CHR '' '')"
    by (simp add: too_wide_def helvetica_width_def sum_list_replicate)
  have "\<not> is_space CHR ''a''" by (simp add: is_space_def)
  then have "split (''a'' @ replicate 100 CHR '' '') = [''a'']"
    by (simp add: split_def split_words_blanks)
  moreover have "\<not> too_wide ''a''" by (simp add: too_wide_def helvetica_width_def)
  ultimately have short: "wrap_text (''a'' @ replicate 100 CHR '' '') = [''a'']"
    by (simp add: wrap_text_def)
  show ?thesis using too_wide_long_word long wide short by simp
qed

theorem wrapped_lines_fit_when_words_fit_witness:
  "too_wide (join (split ''Replace  the bathroom sink faucet and check the shower '')) \<and>
   list_all (\<lambda>w. \<not> too_wide w)
     (split ''Replace  the bathroom sink faucet and check the shower '') \<and>
   2 \<le> length (wrap_text ''Replace  the bathroom sink faucet and check the shower '') \<and>
   list_all (\<lambda>l. \<not> too_wide l)
     (wrap_text ''Replace  the bathroom sink faucet and check the shower '') \<and>
   split (join (wrap_text ''Replace  the bathroom sink faucet and check the shower ''))
     = [''Replace'', ''the'', ''bathroom'', ''sink'', ''faucet'', ''and'', ''check'', ''the'',
        ''shower'']"
proof -
  let ?t = "''Replace  the bathroom sink faucet and check the shower ''"
  have words: "split ?t = [''Replace'', ''the'', ''bathroom'', ''sink'', ''faucet'', ''and'',
      ''check'', ''the'', ''shower'']"
    by (simp add: split_def is_space_def)
  have wide: "too_wide (join (split ?t))"
    unfolding words by (simp add: too_wide_def helvetica_width_def)
  have fit: "list_all (\<lambda>w. \<not> too_wide w) (split ?t)"
    unfolding words by (simp add: too_wide_def helvetica_width_def)
  show ?thesis
    using wrapped_lines_fit_when_words_fit [of ?t] wide fit words by simp
qed

end
